theory Spec2Isabelle
  imports Complex_Main
begin

section \<open>Python values\<close>

text \<open>
  The driver handles \<open>None\<close>, booleans, integers, floats and strings. A float is
  carried as the real number it denotes (no modelled operation computes with floats; they
  are only compared with integer constants). A bound method, which \<open>is_idle\<close> holds in a
  local variable, is an object that is not a value of these kinds.
\<close>

datatype pyval = PNone | PBool bool | PInt int | PFloat real | PStr string

datatype pytype = TNoneType | TBool | TInt | TFloat | TStr

datatype pyobj = Val pyval | BoundMethod string

text \<open>
  Exceptions: the two classes the driver imports, the decoder's failure, and the two
  built-in errors that a comparison or a dictionary lookup raises.
  \<open>PLDeviceCommandError\<close> is the class the spec calls InvalidArgument,
  \<open>PLConnectionError\<close> the one it calls ConnectionError.
\<close>

datatype error = PLConnectionError | PLDeviceCommandError | MalformedReply | TypeError | KeyError

fun py_type :: "pyval \<Rightarrow> pytype" where
  "py_type PNone = TNoneType"
| "py_type (PBool b) = TBool"
| "py_type (PInt i) = TInt"
| "py_type (PFloat x) = TFloat"
| "py_type (PStr s) = TStr"

text \<open>The number a value denotes in a comparison (\<open>True == 1\<close>, \<open>1.0 == 1\<close>).\<close>

fun py_num :: "pyval \<Rightarrow> real option" where
  "py_num PNone = None"
| "py_num (PBool b) = Some (if b then 1 else 0)"
| "py_num (PInt i) = Some (of_int i)"
| "py_num (PFloat x) = Some x"
| "py_num (PStr s) = None"

text \<open>\<open>v == k\<close> for an integer constant \<open>k\<close>: a non-number is never equal to it.\<close>

definition py_eq_int :: "pyval \<Rightarrow> int \<Rightarrow> bool" where
  "py_eq_int v k = (case py_num v of None \<Rightarrow> False | Some x \<Rightarrow> x = of_int k)"

text \<open>\<open>v < k\<close> and \<open>v > k\<close>: ordering a non-number against an integer raises TypeError.\<close>

definition py_lt_int :: "pyval \<Rightarrow> int \<Rightarrow> error + bool" where
  "py_lt_int v k = (case py_num v of None \<Rightarrow> Inl TypeError | Some x \<Rightarrow> Inr (x < of_int k))"

definition py_gt_int :: "pyval \<Rightarrow> int \<Rightarrow> error + bool" where
  "py_gt_int v k = (case py_num v of None \<Rightarrow> Inl TypeError | Some x \<Rightarrow> Inr (of_int k < x))"

text \<open>\<open>o != k\<close> on any object: a bound method is different from every integer.\<close>

fun py_ne_int :: "pyobj \<Rightarrow> int \<Rightarrow> bool" where
  "py_ne_int (Val v) k = (\<not> py_eq_int v k)"
| "py_ne_int (BoundMethod m) k = True"

text \<open>\<open>d[key]\<close> on a dictionary with integer keys: KeyError when no key equals \<open>key\<close>.\<close>

fun dict_getitem :: "(int \<times> string) list \<Rightarrow> pyval \<Rightarrow> error + string" where
  "dict_getitem [] key = Inl KeyError"
| "dict_getitem ((k, v) # kvs) key = (if py_eq_int key k then Inr v else dict_getitem kvs key)"

text \<open>\<open>str(i)\<close> for an integer.\<close>

definition digit_char :: "nat \<Rightarrow> char" where
  "digit_char d = ''0123456789'' ! d"

fun str_nat :: "nat \<Rightarrow> string" where
  "str_nat n = (if n < 10 then [digit_char n] else str_nat (n div 10) @ [digit_char (n mod 10)])"

declare str_nat.simps [simp del]

definition str_int :: "int \<Rightarrow> string" where
  "str_int i = (if i < 0 then ''-'' @ str_nat (nat (- i)) else str_nat (nat i))"

section \<open>Command descriptors\<close>

record reply_spec =
  reply_type :: pytype
  slicer_args :: "(nat \<times> nat option) option"

record command =
  cmd_name :: string
  cmd_type :: "pytype option"
  cmd_check :: "(int \<times> int) option"
  cmd_reply :: "reply_spec option"

definition sliced :: "pytype \<Rightarrow> nat \<Rightarrow> reply_spec option" where
  "sliced t start = Some \<lparr>reply_type = t, slicer_args = Some (start, None)\<rparr>"

definition plain :: "pytype \<Rightarrow> reply_spec option" where
  "plain t = Some \<lparr>reply_type = t, slicer_args = None\<rparr>"

definition DEFAULT_NAME :: string where
  "DEFAULT_NAME = ''Radleys Carousel Connect''"

definition TEMP_MODE :: "(int \<times> string) list" where
  "TEMP_MODE = [(0, ''PRECISE''), (1, ''FAST'')]"

definition RESET_MODE :: "(int \<times> string) list" where
  "RESET_MODE = [(0, ''ALL OFF''), (1, ''ALL ON'')]"

definition STATUS :: "(int \<times> string) list" where
  "STATUS = [(- 1, ''REMOTE BLOCKED''), (0, ''MANUAL''), (1, ''REMOTE START''), (2, ''REMOTE STOP'')]"

definition SET_TEMP :: command where
  "SET_TEMP = \<lparr>cmd_name = ''OUT_SP_1'', cmd_type = Some TInt, cmd_check = Some (20, 300),
     cmd_reply = sliced TFloat 9\<rparr>"

definition SET_SPEED :: command where
  "SET_SPEED = \<lparr>cmd_name = ''OUT_SP_3'', cmd_type = Some TFloat, cmd_check = Some (100, 1400),
     cmd_reply = sliced TStr 9\<rparr>"

definition SET_RESET_MODE :: command where
  "SET_RESET_MODE = \<lparr>cmd_name = ''OUT_MODE_2'', cmd_type = Some TInt, cmd_check = Some (0, 1),
     cmd_reply = sliced TStr 0\<rparr>"

definition SET_TEMP_MODE :: command where
  "SET_TEMP_MODE = \<lparr>cmd_name = ''OUT_MODE_4'', cmd_type = Some TInt, cmd_check = Some (0, 1),
     cmd_reply = sliced TStr 0\<rparr>"

definition START_HEAT :: command where
  "START_HEAT = \<lparr>cmd_name = ''START_1'', cmd_type = None, cmd_check = None, cmd_reply = plain TStr\<rparr>"

definition START_STIR :: command where
  "START_STIR = \<lparr>cmd_name = ''START_2'', cmd_type = None, cmd_check = None, cmd_reply = plain TStr\<rparr>"

definition STOP_HEAT :: command where
  "STOP_HEAT = \<lparr>cmd_name = ''STOP_1'', cmd_type = None, cmd_check = None, cmd_reply = plain TStr\<rparr>"

definition STOP_STIR :: command where
  "STOP_STIR = \<lparr>cmd_name = ''STOP_2'', cmd_type = None, cmd_check = None, cmd_reply = plain TStr\<rparr>"

definition RESET :: command where
  "RESET = \<lparr>cmd_name = ''RESET'', cmd_type = None, cmd_check = None, cmd_reply = None\<rparr>"

definition GET_PROBE_TEMP :: command where
  "GET_PROBE_TEMP = \<lparr>cmd_name = ''IN_PV_1'', cmd_type = None, cmd_check = None,
     cmd_reply = sliced TFloat 8\<rparr>"

definition GET_PROBE_SAFETY_TEMP :: command where
  "GET_PROBE_SAFETY_TEMP = \<lparr>cmd_name = ''IN_PV_2'', cmd_type = None, cmd_check = None,
     cmd_reply = sliced TFloat 8\<rparr>"

definition GET_HOTPLATE_TEMP :: command where
  "GET_HOTPLATE_TEMP = \<lparr>cmd_name = ''IN_PV_3'', cmd_type = None, cmd_check = None,
     cmd_reply = sliced TFloat 8\<rparr>"

definition GET_HOTPLATE_SAFETY_TEMP :: command where
  "GET_HOTPLATE_SAFETY_TEMP = \<lparr>cmd_name = ''IN_PV_4'', cmd_type = None, cmd_check = None,
     cmd_reply = sliced TFloat 8\<rparr>"

definition GET_STIR_SPEED :: command where
  "GET_STIR_SPEED = \<lparr>cmd_name = ''IN_PV_5'', cmd_type = None, cmd_check = None,
     cmd_reply = sliced TFloat 8\<rparr>"

definition GET_SET_TEMP :: command where
  "GET_SET_TEMP = \<lparr>cmd_name = ''IN_SP_1'', cmd_type = None, cmd_check = None,
     cmd_reply = sliced TFloat 8\<rparr>"

definition GET_SET_TEMP_SAFETY_DELTA :: command where
  "GET_SET_TEMP_SAFETY_DELTA = \<lparr>cmd_name = ''IN_SP_2'', cmd_type = None, cmd_check = None,
     cmd_reply = sliced TFloat 8\<rparr>"

definition GET_SET_MOTOR_SPEED :: command where
  "GET_SET_MOTOR_SPEED = \<lparr>cmd_name = ''IN_SP_3'', cmd_type = None, cmd_check = None,
     cmd_reply = sliced TFloat 8\<rparr>"

definition QUERY_TEMP_SENSOR_TYPE :: command where
  "QUERY_TEMP_SENSOR_TYPE = \<lparr>cmd_name = ''IN_MODE_1'', cmd_type = Some TInt, cmd_check = None,
     cmd_reply = sliced TInt 10\<rparr>"

definition QUERY_RESET_MODE :: command where
  "QUERY_RESET_MODE = \<lparr>cmd_name = ''IN_MODE_2'', cmd_type = Some TInt, cmd_check = None,
     cmd_reply = sliced TInt 10\<rparr>"

definition QUERY_TEMP_MODE :: command where
  "QUERY_TEMP_MODE = \<lparr>cmd_name = ''IN_MODE_4'', cmd_type = Some TInt, cmd_check = None,
     cmd_reply = sliced TInt 10\<rparr>"

definition QUERY_STATUS :: command where
  "QUERY_STATUS = \<lparr>cmd_name = ''STATUS'', cmd_type = Some TInt, cmd_check = None,
     cmd_reply = sliced TInt 7\<rparr>"

definition PROTOCOL_NEW :: command where
  "PROTOCOL_NEW = \<lparr>cmd_name = ''PA_NEW'', cmd_type = None, cmd_check = None, cmd_reply = plain TStr\<rparr>"

definition PROTOCOL_OLD :: command where
  "PROTOCOL_OLD = \<lparr>cmd_name = ''PA_OLD'', cmd_type = None, cmd_check = None, cmd_reply = plain TStr\<rparr>"

definition SOFTWARE_VERSION :: command where
  "SOFTWARE_VERSION = \<lparr>cmd_name = ''SW_VERS'', cmd_type = None, cmd_check = None, cmd_reply = plain TStr\<rparr>"

definition CHECK_CONNECTION_ON :: command where
  "CHECK_CONNECTION_ON = \<lparr>cmd_name = ''CC_ON'', cmd_type = None, cmd_check = None, cmd_reply = plain TStr\<rparr>"

definition CHECK_CONNECTION_OFF :: command where
  "CHECK_CONNECTION_OFF = \<lparr>cmd_name = ''CC_OFF'', cmd_type = None, cmd_check = None, cmd_reply = plain TStr\<rparr>"

section \<open>The device object and its collaborators\<close>

text \<open>
  One exchange with the instrument, as the connection and the parser (both outside this
  driver) let it end: the transport fails or times out, a line arrives that the parser
  cannot decode, or a line arrives and decodes to a value.
\<close>

datatype exchange = Broken | Garbled | Decoded pyval

record connection_parameters =
  port :: string
  address :: "string option"
  baudrate :: nat
  bytesize :: nat
  parity :: string
  encoding :: string
  force_7bit :: bool

text \<open>
  The device object: what the constructor stores, the simulation flag of the base class,
  and the environment made explicit: \<open>float_str\<close> is Python's \<open>str\<close> on floats,
  \<open>replies\<close> how the coming exchanges will end, \<open>sent\<close> the frames written to the
  connection so far and \<open>logged\<close> the messages given to the logger.
\<close>

record device =
  device_name :: string
  connection_mode :: string
  parameters :: connection_parameters
  command_terminator :: string
  reply_terminator :: string
  args_delimiter :: string
  simulation :: bool
  float_str :: "real \<Rightarrow> string"
  replies :: "exchange list"
  sent :: "string list"
  logged :: "string list"

type_synonym outcome = "device \<times> (error + pyval)"

definition CRLF :: string where
  "CRLF = [CHR 0x0D, CHR 0x0A]"

definition RadleysCarouselConnect ::
  "string \<Rightarrow> string \<Rightarrow> string option \<Rightarrow> string \<Rightarrow> bool \<Rightarrow> (real \<Rightarrow> string) \<Rightarrow> exchange list \<Rightarrow> device" where
  "RadleysCarouselConnect dname mode addr prt sim fstr script =
     \<lparr>device_name = dname, connection_mode = mode,
      parameters = \<lparr>port = prt, address = addr, baudrate = 9600, bytesize = 8,
        parity = ''N'', encoding = ''utf_8'', force_7bit = True\<rparr>,
      command_terminator = CRLF, reply_terminator = CRLF, args_delimiter = '' '',
      simulation = sim, float_str = fstr, replies = script, sent = [], logged = []\<rparr>"

definition log_msg :: "string \<Rightarrow> device \<Rightarrow> device" where
  "log_msg msg dev = dev\<lparr>logged := logged dev @ [msg]\<rparr>"

subsection \<open>Validator, frame codec and dispatcher\<close>

text \<open>
  Modelled from the spec: the validator (4.1) is code of the base classes, which are not
  among the sources. It fails with InvalidArgument when the descriptor declares no
  argument, when the argument's type is not the declared one, or when bounds are declared
  and the argument lies outside \<open>[min, max]\<close>.
\<close>

definition in_bounds :: "int \<times> int \<Rightarrow> pyval \<Rightarrow> bool" where
  "in_bounds b a = (case py_num a of None \<Rightarrow> False
     | Some x \<Rightarrow> of_int (fst b) \<le> x \<and> x \<le> of_int (snd b))"

definition validate :: "command \<Rightarrow> pyval \<Rightarrow> error + unit" where
  "validate cmd a =
     (case cmd_type cmd of
        None \<Rightarrow> Inl PLDeviceCommandError
      | Some t \<Rightarrow>
          if py_type a \<noteq> t then Inl PLDeviceCommandError
          else (case cmd_check cmd of
                  None \<Rightarrow> Inr ()
                | Some b \<Rightarrow> if in_bounds b a then Inr () else Inl PLDeviceCommandError))"

text \<open>
  Modelled from the spec: the encoder (4.2) is code of the base classes. The frame is the
  name, then the argument delimiter and the argument as text when there is an argument,
  then the command terminator.
\<close>

fun py_str :: "(real \<Rightarrow> string) \<Rightarrow> pyval \<Rightarrow> string" where
  "py_str fstr PNone = ''None''"
| "py_str fstr (PBool b) = (if b then ''True'' else ''False'')"
| "py_str fstr (PInt i) = str_int i"
| "py_str fstr (PFloat x) = fstr x"
| "py_str fstr (PStr s) = s"

definition encode :: "device \<Rightarrow> command \<Rightarrow> pyval option \<Rightarrow> string" where
  "encode dev cmd arg =
     cmd_name cmd
     @ (case arg of None \<Rightarrow> [] | Some a \<Rightarrow> args_delimiter dev @ py_str (float_str dev) a)
     @ command_terminator dev"

text \<open>
  Modelled from the spec: decoding (4.2, 4.3 steps 4 and 5). Without a reply rule the
  reply body is ignored and no value is returned; with one, the decoded value is
  returned, or MalformedReply is raised.
\<close>

definition decode :: "command \<Rightarrow> exchange \<Rightarrow> error + pyval" where
  "decode cmd x =
     (case x of
        Broken \<Rightarrow> Inl PLConnectionError
      | Garbled \<Rightarrow> (case cmd_reply cmd of None \<Rightarrow> Inr PNone | Some r \<Rightarrow> Inl MalformedReply)
      | Decoded v \<Rightarrow> (case cmd_reply cmd of None \<Rightarrow> Inr PNone | Some r \<Rightarrow> Inr v))"

text \<open>
  Modelled from the spec: the dispatcher \<open>send\<close> (4.3) is code of the base classes. An
  argument, if given, is validated first and a failure is raised with nothing sent; the
  frame is written; one reply is awaited (none left: a timeout, raised as
  ConnectionError); the reply is decoded.
\<close>

definition exchange_frame :: "device \<Rightarrow> command \<Rightarrow> string \<Rightarrow> outcome" where
  "exchange_frame dev cmd frame =
     (let dev1 = dev\<lparr>sent := sent dev @ [frame]\<rparr>
      in case replies dev1 of
           [] \<Rightarrow> (dev1, Inl PLConnectionError)
         | x # xs \<Rightarrow> (dev1\<lparr>replies := xs\<rparr>, decode cmd x))"

definition send :: "device \<Rightarrow> command \<Rightarrow> pyval option \<Rightarrow> outcome" where
  "send dev cmd arg =
     (case (case arg of None \<Rightarrow> Inr () | Some a \<Rightarrow> validate cmd a) of
        Inl e \<Rightarrow> (dev, Inl e)
      | Inr u \<Rightarrow> exchange_frame dev cmd (encode dev cmd arg))"

text \<open>
  Modelled from the spec: the decorator \<open>in_simulation_device_returns\<close> (4.5) is code of
  the controllers module. In simulation mode the wrapped operation is not run and the
  given value is returned.
\<close>

definition in_simulation_device_returns :: "pyval \<Rightarrow> (device \<Rightarrow> outcome) \<Rightarrow> device \<Rightarrow> outcome" where
  "in_simulation_device_returns v f dev = (if simulation dev then (dev, Inr v) else f dev)"

section \<open>The device operations\<close>

text \<open>
  \<open>is_connected\<close>: the body, and the operation as the decorator wraps it. Only
  \<open>PLConnectionError\<close> is caught; the comparisons are inside the \<open>try\<close> block.
\<close>

definition is_connected_body :: "device \<Rightarrow> outcome" where
  "is_connected_body dev =
     (case send dev QUERY_STATUS None of
        (dev1, Inl e) \<Rightarrow>
          if e = PLConnectionError then (dev1, Inr (PBool False)) else (dev1, Inl e)
      | (dev1, Inr reply) \<Rightarrow>
          if py_eq_int reply (- 1)
          then (log_msg ''Device connection blocked'' dev1, Inr (PBool False))
          else (case py_lt_int reply (- 1) of
                  Inl e \<Rightarrow>
                    if e = PLConnectionError then (dev1, Inr (PBool False)) else (dev1, Inl e)
                | Inr lt \<Rightarrow>
                    if lt then (log_msg ''Device error'' dev1, Inr (PBool False))
                    else (dev1, Inr (PBool True))))"

definition is_connected :: "device \<Rightarrow> outcome" where
  "is_connected = in_simulation_device_returns (PStr DEFAULT_NAME) is_connected_body"

text \<open>
  \<open>get_status\<close>: \<open>3 > reply > -2\<close> is \<open>3 > reply and reply > -2\<close>, the second
  comparison made only when the first holds.
\<close>

definition get_status :: "device \<Rightarrow> outcome" where
  "get_status dev =
     (case send dev QUERY_STATUS None of
        (dev1, Inl e) \<Rightarrow> (dev1, Inl e)
      | (dev1, Inr reply) \<Rightarrow>
          (case py_lt_int reply 3 of
             Inl e \<Rightarrow> (dev1, Inl e)
           | Inr lt3 \<Rightarrow>
               if \<not> lt3 then (dev1, Inr (PStr ''ERROR''))
               else (case py_gt_int reply (- 2) of
                       Inl e \<Rightarrow> (dev1, Inl e)
                     | Inr gt2 \<Rightarrow>
                         if gt2
                         then (case dict_getitem STATUS reply of
                                 Inl e \<Rightarrow> (dev1, Inl e)
                               | Inr s \<Rightarrow> (dev1, Inr (PStr s)))
                         else (dev1, Inr (PStr ''ERROR'')))))"

text \<open>
  \<open>is_idle\<close>: \<open>reply = self.get_status\<close> binds the method itself, which is not called.
\<close>

definition is_idle :: "device \<Rightarrow> outcome" where
  "is_idle dev =
     (let reply = BoundMethod ''get_status''
      in if py_ne_int reply 1 then (dev, Inr (PBool False)) else (dev, Inr (PBool True)))"

text \<open>\<open>set_temperature\<close> returns nothing; an error of \<open>send\<close> is passed on.\<close>

definition discard :: "outcome \<Rightarrow> outcome" where
  "discard r = (case r of (dev1, Inl e) \<Rightarrow> (dev1, Inl e) | (dev1, Inr v) \<Rightarrow> (dev1, Inr PNone))"

definition set_temperature :: "device \<Rightarrow> pyval \<Rightarrow> pyval \<Rightarrow> outcome" where
  "set_temperature dev temperature sensor = discard (send dev SET_TEMP (Some temperature))"

definition get_temperature_setpoint :: "device \<Rightarrow> pyval \<Rightarrow> outcome" where
  "get_temperature_setpoint dev sensor = send dev GET_SET_TEMP None"

definition get_temperature :: "device \<Rightarrow> pyval \<Rightarrow> outcome" where
  "get_temperature dev sensor =
     (if py_eq_int sensor 0 then send dev GET_HOTPLATE_TEMP None
      else if py_eq_int sensor 1 then send dev GET_PROBE_TEMP None
      else (dev, Inl PLDeviceCommandError))"

definition get_temperature_safety_delta :: "device \<Rightarrow> outcome" where
  "get_temperature_safety_delta dev = discard (send dev GET_SET_TEMP_SAFETY_DELTA None)"

section \<open>A bench device for concrete runs\<close>

text \<open>
  A device built by the constructor, with the simulation flag and the coming exchanges
  left open. No frame of the runs below carries a float, so \<open>float_str\<close> is arbitrary.
\<close>

definition lab_device :: "bool \<Rightarrow> exchange list \<Rightarrow> device" where
  "lab_device sim script =
     RadleysCarouselConnect ''hotplate'' ''serial'' None ''COM3'' sim (\<lambda>x. []) script"

section \<open>Facts about values and collaborators\<close>

lemma py_eq_int_PInt [simp]: "py_eq_int (PInt i) k = (i = k)"
  by (simp add: py_eq_int_def)

lemma py_lt_int_PInt [simp]: "py_lt_int (PInt i) k = Inr (i < k)"
  by (simp add: py_lt_int_def)

lemma py_gt_int_PInt [simp]: "py_gt_int (PInt i) k = Inr (k < i)"
  by (simp add: py_gt_int_def)

lemma dict_getitem_STATUS:
  "dict_getitem STATUS (PInt r) =
     (if r = - 1 then Inr ''REMOTE BLOCKED'' else if r = 0 then Inr ''MANUAL''
      else if r = 1 then Inr ''REMOTE START'' else if r = 2 then Inr ''REMOTE STOP''
      else Inl KeyError)"
  by (simp add: STATUS_def)

lemma str_int_150: "str_int 150 = ''150''"
  by (simp add: str_int_def str_nat.simps digit_char_def)

lemma exchange_frame_Nil:
  "replies dev = [] \<Longrightarrow>
   exchange_frame dev cmd f = (dev\<lparr>sent := sent dev @ [f]\<rparr>, Inl PLConnectionError)"
  by (simp add: exchange_frame_def)

lemma exchange_frame_Cons:
  "replies dev = x # xs \<Longrightarrow>
   exchange_frame dev cmd f = (dev\<lparr>sent := sent dev @ [f], replies := xs\<rparr>, decode cmd x)"
  by (simp add: exchange_frame_def)

lemma sent_exchange_frame: "sent (fst (exchange_frame dev cmd f)) = sent dev @ [f]"
  by (cases "replies dev") (simp_all add: exchange_frame_def)

lemma send_no_arg:
  "send dev cmd None = exchange_frame dev cmd (cmd_name cmd @ command_terminator dev)"
  by (simp add: send_def encode_def)

lemma sent_send_no_arg:
  "sent (fst (send dev cmd None)) = sent dev @ [cmd_name cmd @ command_terminator dev]"
  by (simp add: send_no_arg sent_exchange_frame)

lemma decode_status:
  "decode QUERY_STATUS x =
     (case x of Broken \<Rightarrow> Inl PLConnectionError | Garbled \<Rightarrow> Inl MalformedReply
      | Decoded v \<Rightarrow> Inr v)"
  by (simp add: decode_def QUERY_STATUS_def sliced_def split: exchange.splits)

lemma validate_SET_TEMP_int:
  "validate SET_TEMP (PInt x) = (if 20 \<le> x \<and> x \<le> 300 then Inr () else Inl PLDeviceCommandError)"
  by (simp add: validate_def SET_TEMP_def in_bounds_def)

lemma validate_SET_TEMP_outside:
  "py_num a = Some v \<Longrightarrow> v < 20 \<or> 300 < v \<Longrightarrow> validate SET_TEMP a = Inl PLDeviceCommandError"
  by (auto simp add: validate_def SET_TEMP_def in_bounds_def)

lemma send_SET_TEMP_accepted:
  "20 \<le> x \<Longrightarrow> x \<le> 300 \<Longrightarrow>
   send dev SET_TEMP (Some (PInt x)) =
     exchange_frame dev SET_TEMP (encode dev SET_TEMP (Some (PInt x)))"
  by (simp add: send_def validate_SET_TEMP_int)

lemma encode_150:
  "args_delimiter dev = '' '' \<Longrightarrow> command_terminator dev = CRLF \<Longrightarrow>
   encode dev SET_TEMP (Some (PInt 150)) = ''OUT_SP_1 150'' @ [CHR 0x0D, CHR 0x0A]"
  by (simp add: encode_def str_int_150 SET_TEMP_def CRLF_def)

lemma lab_device_replies [simp]: "replies (lab_device sim script) = script"
  by (simp add: lab_device_def RadleysCarouselConnect_def)

lemma lab_device_simulation [simp]: "simulation (lab_device sim script) = sim"
  by (simp add: lab_device_def RadleysCarouselConnect_def)

lemma lab_device_sent [simp]: "sent (lab_device sim script) = []"
  by (simp add: lab_device_def RadleysCarouselConnect_def)

lemma lab_device_terminator [simp]: "command_terminator (lab_device sim script) = CRLF"
  by (simp add: lab_device_def RadleysCarouselConnect_def)

section \<open>Status decoding\<close>

text \<open>
  C3. For every integer reply \<open>r\<close> to the STATUS query, \<open>get_status\<close> returns
  "REMOTE BLOCKED" when \<open>r = -1\<close>, "MANUAL" when \<open>r = 0\<close>, "REMOTE START" when
  \<open>r = 1\<close>, "REMOTE STOP" when \<open>r = 2\<close>, and the string "ERROR" for every \<open>r\<close> with
  \<open>r \<le> -2\<close> or \<open>r \<ge> 3\<close>.
\<close>

theorem get_status_decode_table:
  "replies dev = Decoded (PInt r) # rest \<Longrightarrow>
     (r = - 1 \<longrightarrow> snd (get_status dev) = Inr (PStr ''REMOTE BLOCKED'')) \<and>
     (r = 0 \<longrightarrow> snd (get_status dev) = Inr (PStr ''MANUAL'')) \<and>
     (r = 1 \<longrightarrow> snd (get_status dev) = Inr (PStr ''REMOTE START'')) \<and>
     (r = 2 \<longrightarrow> snd (get_status dev) = Inr (PStr ''REMOTE STOP'')) \<and>
     (r \<le> - 2 \<or> 3 \<le> r \<longrightarrow> snd (get_status dev) = Inr (PStr ''ERROR''))"
  by (auto simp add: get_status_def send_no_arg exchange_frame_Cons decode_status
      dict_getitem_STATUS)

text \<open>C3 on concrete runs: replies 1, 7 and -2.\<close>

theorem get_status_decode_table_witness:
  "snd (get_status (lab_device False [Decoded (PInt 1)])) = Inr (PStr ''REMOTE START'') \<and>
   snd (get_status (lab_device False [Decoded (PInt 7)])) = Inr (PStr ''ERROR'') \<and>
   snd (get_status (lab_device False [Decoded (PInt (- 2))])) = Inr (PStr ''ERROR'')"
  using get_status_decode_table [of "lab_device False [Decoded (PInt 1)]" 1 "[]"]
    get_status_decode_table [of "lab_device False [Decoded (PInt 7)]" 7 "[]"]
    get_status_decode_table [of "lab_device False [Decoded (PInt (- 2))]" "- 2" "[]"]
  by simp

text \<open>
  C2, as stated (\<open>get_status\<close> never raises and turns a connection error into "ERROR"),
  fails: with a broken transport the error of \<open>send\<close> leaves \<open>get_status\<close> uncaught.
\<close>

theorem get_status_raises_counterexample:
  "snd (get_status (lab_device False [Broken])) = Inl PLConnectionError"
  by (simp add: get_status_def send_no_arg exchange_frame_Cons decode_status)

text \<open>
  C2, amended. \<open>get_status\<close> passes on every error of the STATUS dispatch: a
  ConnectionError when the transport fails or times out, a MalformedReply when the line
  cannot be decoded. For an integer reply it does not raise and returns a string, which
  is "ERROR" exactly when the reply is out of range (\<open>r \<le> -2\<close> or \<open>r \<ge> 3\<close>).
\<close>

theorem get_status_errors:
  "(replies dev = [] \<longrightarrow> snd (get_status dev) = Inl PLConnectionError) \<and>
   (\<forall>rest. replies dev = Broken # rest \<longrightarrow> snd (get_status dev) = Inl PLConnectionError) \<and>
   (\<forall>rest. replies dev = Garbled # rest \<longrightarrow> snd (get_status dev) = Inl MalformedReply) \<and>
   (\<forall>r rest. replies dev = Decoded (PInt r) # rest \<longrightarrow>
      (\<exists>s. snd (get_status dev) = Inr (PStr s)) \<and>
      (snd (get_status dev) = Inr (PStr ''ERROR'') \<longleftrightarrow> r \<le> - 2 \<or> 3 \<le> r))"
  by (auto simp add: get_status_def send_no_arg exchange_frame_Nil exchange_frame_Cons
      decode_status dict_getitem_STATUS)

text \<open>C2 amended, on concrete runs: a timeout, an undecodable line, the reply 3.\<close>

theorem get_status_errors_witness:
  "snd (get_status (lab_device False [])) = Inl PLConnectionError \<and>
   snd (get_status (lab_device False [Garbled])) = Inl MalformedReply \<and>
   snd (get_status (lab_device False [Decoded (PInt 3)])) = Inr (PStr ''ERROR'')"
  using get_status_errors [of "lab_device False []"]
    get_status_errors [of "lab_device False [Garbled]"]
    get_status_errors [of "lab_device False [Decoded (PInt 3)]"]
  by simp

section \<open>Idleness\<close>

text \<open>
  \<open>is_idle\<close> compares the bound method with 1, so it answers False on every device and
  leaves the device untouched: no STATUS query is made.
\<close>

lemma is_idle_never_idle: "is_idle dev = (dev, Inr (PBool False))"
  by (simp add: is_idle_def)

text \<open>
  C1 (is_idle is true iff the decoded status code equals 1) does not hold of the code:
  on a device whose STATUS reply is 1, \<open>get_status\<close> reports "REMOTE START" and
  \<open>is_idle\<close> still returns False, without querying the device.
\<close>

theorem is_idle_remote_start:
  "snd (get_status (lab_device False [Decoded (PInt 1)])) = Inr (PStr ''REMOTE START'') \<and>
   is_idle (lab_device False [Decoded (PInt 1)]) =
     (lab_device False [Decoded (PInt 1)], Inr (PBool False))"
  by (simp add: is_idle_def get_status_def send_no_arg exchange_frame_Cons decode_status
      dict_getitem_STATUS)

section \<open>Liveness probe\<close>

text \<open>
  C4, as stated (\<open>is_connected\<close> never raises), fails: only \<open>PLConnectionError\<close> is
  caught, so a MalformedReply raised by the STATUS dispatch leaves \<open>is_connected\<close>.
\<close>

theorem is_connected_raises_counterexample:
  "snd (is_connected (lab_device False [Garbled])) = Inl MalformedReply"
  by (simp add: is_connected_def in_simulation_device_returns_def is_connected_body_def
      send_no_arg exchange_frame_Cons decode_status)

text \<open>
  C4, amended. Outside simulation mode, \<open>is_connected\<close> returns False when \<open>send\<close>
  raises ConnectionError (transport failure or timeout), False when the decoded status
  reply is -1 or less than -1, and True for every other integer reply; a MalformedReply
  raised by \<open>send\<close> is not caught and reaches the caller.
\<close>

theorem is_connected_outcomes:
  "\<not> simulation dev \<Longrightarrow>
   (replies dev = [] \<longrightarrow> snd (is_connected dev) = Inr (PBool False)) \<and>
   (\<forall>rest. replies dev = Broken # rest \<longrightarrow> snd (is_connected dev) = Inr (PBool False)) \<and>
   (\<forall>rest. replies dev = Garbled # rest \<longrightarrow> snd (is_connected dev) = Inl MalformedReply) \<and>
   (\<forall>r rest. replies dev = Decoded (PInt r) # rest \<longrightarrow>
      snd (is_connected dev) = Inr (PBool (if r = - 1 \<or> r < - 1 then False else True)))"
  by (auto simp add: is_connected_def in_simulation_device_returns_def is_connected_body_def
      send_no_arg exchange_frame_Nil exchange_frame_Cons decode_status)

text \<open>C4 amended, on concrete runs: timeout, broken transport, replies -1, -5 and 0.\<close>

theorem is_connected_outcomes_witness:
  "snd (is_connected (lab_device False [])) = Inr (PBool False) \<and>
   snd (is_connected (lab_device False [Broken])) = Inr (PBool False) \<and>
   snd (is_connected (lab_device False [Decoded (PInt (- 1))])) = Inr (PBool False) \<and>
   snd (is_connected (lab_device False [Decoded (PInt (- 5))])) = Inr (PBool False) \<and>
   snd (is_connected (lab_device False [Decoded (PInt 0)])) = Inr (PBool True)"
  using is_connected_outcomes [of "lab_device False []"]
    is_connected_outcomes [of "lab_device False [Broken]"]
    is_connected_outcomes [of "lab_device False [Decoded (PInt (- 1))]"]
    is_connected_outcomes [of "lab_device False [Decoded (PInt (- 5))]"]
    is_connected_outcomes [of "lab_device False [Decoded (PInt 0)]"]
  by simp

text \<open>
  C8. In simulation mode every call of \<open>is_connected\<close> returns the declared default
  name "Radleys Carousel Connect", and the wrapped body does not run: the device is
  returned as it was, with no frame sent, no reply consumed and nothing logged.
\<close>

theorem is_connected_simulation:
  "simulation dev \<Longrightarrow> is_connected dev = (dev, Inr (PStr ''Radleys Carousel Connect''))"
  by (simp add: is_connected_def in_simulation_device_returns_def DEFAULT_NAME_def)

text \<open>C8 on a concrete run: a simulated device whose instrument would answer -1.\<close>

theorem is_connected_simulation_witness:
  "is_connected (lab_device True [Decoded (PInt (- 1))]) =
     (lab_device True [Decoded (PInt (- 1))], Inr (PStr ''Radleys Carousel Connect''))"
  using is_connected_simulation [of "lab_device True [Decoded (PInt (- 1))]"]
  by simp

section \<open>Temperature operations\<close>

text \<open>
  C5. For every sensor value \<open>s\<close>, \<open>get_temperature\<close> dispatches the hotplate
  temperature command (frame IN_PV_3) when \<open>s == 0\<close>, the external probe temperature
  command (frame IN_PV_1) when \<open>s == 1\<close>, and for every other \<open>s\<close> raises the
  device-command error with nothing dispatched: the device is returned as it was.
  Equality is Python's: for an integer \<open>s\<close> it is equality of integers.
\<close>

theorem get_temperature_dispatch:
  "(py_eq_int s 0 \<longrightarrow>
      get_temperature dev s = send dev GET_HOTPLATE_TEMP None \<and>
      sent (fst (get_temperature dev s)) = sent dev @ [''IN_PV_3'' @ command_terminator dev]) \<and>
   (\<not> py_eq_int s 0 \<and> py_eq_int s 1 \<longrightarrow>
      get_temperature dev s = send dev GET_PROBE_TEMP None \<and>
      sent (fst (get_temperature dev s)) = sent dev @ [''IN_PV_1'' @ command_terminator dev]) \<and>
   (\<not> py_eq_int s 0 \<and> \<not> py_eq_int s 1 \<longrightarrow>
      get_temperature dev s = (dev, Inl PLDeviceCommandError))"
  by (simp add: get_temperature_def sent_send_no_arg GET_HOTPLATE_TEMP_def GET_PROBE_TEMP_def)

text \<open>C5 on concrete runs: sensors 0, 1 and 2.\<close>

theorem get_temperature_dispatch_witness:
  "sent (fst (get_temperature (lab_device False [Decoded (PFloat 25)]) (PInt 0)))
     = [''IN_PV_3'' @ CRLF] \<and>
   sent (fst (get_temperature (lab_device False [Decoded (PFloat 25)]) (PInt 1)))
     = [''IN_PV_1'' @ CRLF] \<and>
   get_temperature (lab_device False [Decoded (PFloat 25)]) (PInt 2) =
     (lab_device False [Decoded (PFloat 25)], Inl PLDeviceCommandError)"
proof -
  let ?d = "lab_device False [Decoded (PFloat 25)]"
  have "py_eq_int (PInt 0) 0" by simp
  with get_temperature_dispatch [of "PInt 0" ?d]
  have "sent (fst (get_temperature ?d (PInt 0))) = sent ?d @ [''IN_PV_3'' @ command_terminator ?d]"
    by blast
  moreover have "\<not> py_eq_int (PInt 1) 0 \<and> py_eq_int (PInt 1) 1" by simp
  with get_temperature_dispatch [of "PInt 1" ?d]
  have "sent (fst (get_temperature ?d (PInt 1))) = sent ?d @ [''IN_PV_1'' @ command_terminator ?d]"
    by blast
  moreover have "\<not> py_eq_int (PInt 2) 0 \<and> \<not> py_eq_int (PInt 2) 1" by simp
  with get_temperature_dispatch [of "PInt 2" ?d]
  have "get_temperature ?d (PInt 2) = (?d, Inl PLDeviceCommandError)"
    by blast
  ultimately show ?thesis by simp
qed

text \<open>
  C9. \<open>get_temperature_safety_delta\<close> dispatches the GET_SET_TEMP_SAFETY_DELTA command
  (frame IN_SP_2) and discards the decoded reply: whatever value the dispatch returns, the
  operation returns None, and None is the only value it ever returns. (An error of the
  dispatch is passed on.)
\<close>

theorem get_temperature_safety_delta_None:
  "fst (get_temperature_safety_delta dev) = fst (send dev GET_SET_TEMP_SAFETY_DELTA None) \<and>
   sent (fst (get_temperature_safety_delta dev)) = sent dev @ [''IN_SP_2'' @ command_terminator dev] \<and>
   (\<forall>v. snd (send dev GET_SET_TEMP_SAFETY_DELTA None) = Inr v \<longrightarrow>
      snd (get_temperature_safety_delta dev) = Inr PNone) \<and>
   (\<forall>e. snd (send dev GET_SET_TEMP_SAFETY_DELTA None) = Inl e \<longrightarrow>
      snd (get_temperature_safety_delta dev) = Inl e) \<and>
   (\<forall>v. snd (get_temperature_safety_delta dev) = Inr v \<longrightarrow> v = PNone)"
  by (cases "send dev GET_SET_TEMP_SAFETY_DELTA None";
      cases "snd (send dev GET_SET_TEMP_SAFETY_DELTA None)")
     (use sent_send_no_arg [of dev GET_SET_TEMP_SAFETY_DELTA] in
      \<open>auto simp add: get_temperature_safety_delta_def discard_def GET_SET_TEMP_SAFETY_DELTA_def\<close>)

text \<open>C9 on a concrete run: the instrument answers 5.0, the operation returns None.\<close>

theorem get_temperature_safety_delta_None_witness:
  "snd (send (lab_device False [Decoded (PFloat 5)]) GET_SET_TEMP_SAFETY_DELTA None)
     = Inr (PFloat 5) \<and>
   snd (get_temperature_safety_delta (lab_device False [Decoded (PFloat 5)])) = Inr PNone"
proof -
  have s: "snd (send (lab_device False [Decoded (PFloat 5)]) GET_SET_TEMP_SAFETY_DELTA None)
    = Inr (PFloat 5)"
    by (simp add: send_no_arg exchange_frame_Cons decode_def GET_SET_TEMP_SAFETY_DELTA_def
        sliced_def)
  with get_temperature_safety_delta_None [of "lab_device False [Decoded (PFloat 5)]"]
  show ?thesis by simp
qed

text \<open>
  C10. \<open>set_temperature\<close> does not depend on its sensor parameter: for every temperature
  \<open>t\<close> and any two sensor values \<open>s1\<close> and \<open>s2\<close>, neither of them checked, the two calls
  give the same device and the same result, which are those of dispatching SET_TEMP with
  argument \<open>t\<close> and dropping the reply.
\<close>

theorem set_temperature_ignores_sensor:
  "set_temperature dev t s1 = set_temperature dev t s2 \<and>
   fst (set_temperature dev t s1) = fst (send dev SET_TEMP (Some t)) \<and>
   snd (set_temperature dev t s1) = snd (discard (send dev SET_TEMP (Some t)))"
  by (simp add: set_temperature_def discard_def split: prod.splits sum.splits)

text \<open>C10 on a concrete run: sensor 0 against the string sensor "probe".\<close>

theorem set_temperature_ignores_sensor_witness:
  "set_temperature (lab_device False [Decoded (PFloat 150)]) (PInt 150) (PInt 0) =
   set_temperature (lab_device False [Decoded (PFloat 150)]) (PInt 150) (PStr ''probe'')"
  using set_temperature_ignores_sensor
    [of "lab_device False [Decoded (PFloat 150)]" "PInt 150" "PInt 0" "PStr ''probe''"]
  by simp

section \<open>Validation and framing of SET_TEMP\<close>

text \<open>
  C6. For the SET_TEMP descriptor, bounds 20 and 300: every integer argument \<open>x\<close> with
  \<open>20 \<le> x \<le> 300\<close> is accepted and its frame is written; every integer argument below
  20 or above 300 is refused with InvalidArgument and the device is returned as it was,
  nothing sent; and so is every argument of any kind whose number lies outside the bounds.
\<close>

theorem SET_TEMP_bounds:
  "(20 \<le> x \<and> x \<le> 300 \<longrightarrow>
      validate SET_TEMP (PInt x) = Inr () \<and>
      sent (fst (send dev SET_TEMP (Some (PInt x))))
        = sent dev @ [encode dev SET_TEMP (Some (PInt x))]) \<and>
   (x < 20 \<or> 300 < x \<longrightarrow>
      validate SET_TEMP (PInt x) = Inl PLDeviceCommandError \<and>
      send dev SET_TEMP (Some (PInt x)) = (dev, Inl PLDeviceCommandError)) \<and>
   (\<forall>v. py_num a = Some v \<and> (v < 20 \<or> 300 < v) \<longrightarrow>
      validate SET_TEMP a = Inl PLDeviceCommandError \<and>
      send dev SET_TEMP (Some a) = (dev, Inl PLDeviceCommandError))"
  by (auto simp add: validate_SET_TEMP_int validate_SET_TEMP_outside send_def
      sent_exchange_frame)

text \<open>C6 on concrete arguments: 20 and 300 accepted, 19 and 301 refused.\<close>

theorem SET_TEMP_bounds_witness:
  "validate SET_TEMP (PInt 20) = Inr () \<and> validate SET_TEMP (PInt 300) = Inr () \<and>
   validate SET_TEMP (PInt 19) = Inl PLDeviceCommandError \<and>
   validate SET_TEMP (PInt 301) = Inl PLDeviceCommandError \<and>
   send (lab_device False [Decoded (PFloat 19)]) SET_TEMP (Some (PInt 19)) =
     (lab_device False [Decoded (PFloat 19)], Inl PLDeviceCommandError)"
  using SET_TEMP_bounds [of 20] SET_TEMP_bounds [of 300]
    SET_TEMP_bounds [of 19 "lab_device False [Decoded (PFloat 19)]"] SET_TEMP_bounds [of 301]
  by simp

text \<open>
  C7. On a device built by the constructor (argument delimiter " ", command terminator
  CR LF), encoding SET_TEMP with argument 150 gives exactly the frame
  "OUT_SP_1 150" followed by CR LF, and that is the one frame \<open>send\<close> writes.
\<close>

theorem encode_SET_TEMP_150:
  "encode (RadleysCarouselConnect dname mode addr prt sim fstr script) SET_TEMP (Some (PInt 150))
     = ''OUT_SP_1 150'' @ [CHR 0x0D, CHR 0x0A] \<and>
   sent (fst (send (RadleysCarouselConnect dname mode addr prt sim fstr script) SET_TEMP
     (Some (PInt 150)))) = [''OUT_SP_1 150'' @ [CHR 0x0D, CHR 0x0A]]"
proof -
  let ?d = "RadleysCarouselConnect dname mode addr prt sim fstr script"
  have cfg: "args_delimiter ?d = '' ''" "command_terminator ?d = CRLF" "sent ?d = []"
    by (simp_all add: RadleysCarouselConnect_def)
  have "sent (fst (send ?d SET_TEMP (Some (PInt 150))))
    = sent ?d @ [encode ?d SET_TEMP (Some (PInt 150))]"
    by (simp add: send_SET_TEMP_accepted sent_exchange_frame)
  with cfg show ?thesis
    by (simp add: encode_150)
qed

text \<open>C7 on the bench device.\<close>

theorem encode_SET_TEMP_150_witness:
  "encode (lab_device False []) SET_TEMP (Some (PInt 150))
     = ''OUT_SP_1 150'' @ [CHR 0x0D, CHR 0x0A]"
  using encode_SET_TEMP_150 [of "''hotplate''" "''serial''" None "''COM3''" False "\<lambda>x. []" "[]"]
  by (simp add: lab_device_def)

end
